theory Spec2Isabelle
  imports Complex_Main "HOL-Library.Log_Nat"
begin

section \<open>The number type of the source\<close>

text \<open>
  Every numeric value of the source is a TypeScript \<open>number\<close>, an IEEE double. The
  model keeps the three kinds of value: a finite number, the two infinities and NaN.
  Division by zero, \<open>0/0\<close> and the comparisons with NaN behave as in the language; the
  sign of zero is not modelled, a zero divisor is taken as \<open>+0\<close>.

  Finite arithmetic comes in two layers. The operations \<open>jadd\<close>, \<open>jsub\<close>, \<open>jmul\<close>,
  \<open>jdiv\<close> are exact on finite values. The operations \<open>dadd\<close>, \<open>dsub\<close>, \<open>dmul\<close>,
  \<open>ddiv\<close> round the exact result to the nearest double, ties to even, as the language
  does (53 significant bits; overflow to an infinity and subnormal numbers are not
  modelled). The rewards engine and the projections are modelled with the exact
  layer. The allocation is modelled with the rounding layer, since its token accounting
  is exact only as far as doubles are.
\<close>

datatype jsnum = Fin real | PInf | NInf | NaN

definition is_pos :: "jsnum \<Rightarrow> bool" where
  "is_pos x = (case x of Fin a \<Rightarrow> 0 < a | PInf \<Rightarrow> True | NInf \<Rightarrow> False | NaN \<Rightarrow> False)"

definition finite_num :: "jsnum \<Rightarrow> bool" where
  "finite_num x = (case x of Fin a \<Rightarrow> True | PInf \<Rightarrow> False | NInf \<Rightarrow> False | NaN \<Rightarrow> False)"

fun jneg :: "jsnum \<Rightarrow> jsnum" where
  "jneg (Fin a) = Fin (- a)"
| "jneg PInf = NInf"
| "jneg NInf = PInf"
| "jneg NaN = NaN"

fun jadd :: "jsnum \<Rightarrow> jsnum \<Rightarrow> jsnum" where
  "jadd (Fin a) (Fin b) = Fin (a + b)"
| "jadd NaN _ = NaN"
| "jadd _ NaN = NaN"
| "jadd PInf NInf = NaN"
| "jadd NInf PInf = NaN"
| "jadd PInf _ = PInf"
| "jadd _ PInf = PInf"
| "jadd NInf _ = NInf"
| "jadd _ NInf = NInf"

definition jsub :: "jsnum \<Rightarrow> jsnum \<Rightarrow> jsnum" where
  "jsub a b = jadd a (jneg b)"

fun jmul :: "jsnum \<Rightarrow> jsnum \<Rightarrow> jsnum" where
  "jmul (Fin a) (Fin b) = Fin (a * b)"
| "jmul NaN _ = NaN"
| "jmul _ NaN = NaN"
| "jmul a b = (if a = Fin 0 \<or> b = Fin 0 then NaN
               else if is_pos a = is_pos b then PInf else NInf)"

fun jdiv :: "jsnum \<Rightarrow> jsnum \<Rightarrow> jsnum" where
  "jdiv (Fin a) (Fin b) =
     (if b = 0 then (if a = 0 then NaN else if 0 < a then PInf else NInf)
      else Fin (a / b))"
| "jdiv NaN _ = NaN"
| "jdiv _ NaN = NaN"
| "jdiv (Fin a) _ = Fin 0"
| "jdiv a (Fin b) = (if is_pos a = (0 \<le> b) then PInf else NInf)"
| "jdiv _ _ = NaN"

fun jlt :: "jsnum \<Rightarrow> jsnum \<Rightarrow> bool" where
  "jlt (Fin a) (Fin b) = (a < b)"
| "jlt NaN _ = False"
| "jlt _ NaN = False"
| "jlt NInf b = (b \<noteq> NInf)"
| "jlt a PInf = (a \<noteq> PInf)"
| "jlt _ _ = False"

definition jeq :: "jsnum \<Rightarrow> jsnum \<Rightarrow> bool" where
  "jeq a b = (a = b \<and> a \<noteq> NaN)"

definition jle :: "jsnum \<Rightarrow> jsnum \<Rightarrow> bool" where
  "jle a b = (jlt a b \<or> jeq a b)"

definition jgt :: "jsnum \<Rightarrow> jsnum \<Rightarrow> bool" where
  "jgt a b = jlt b a"

definition jge :: "jsnum \<Rightarrow> jsnum \<Rightarrow> bool" where
  "jge a b = jle b a"

definition jmax :: "jsnum \<Rightarrow> jsnum \<Rightarrow> jsnum" where
  "jmax a b = (if a = NaN \<or> b = NaN then NaN else if jlt a b then b else a)"

definition jmin :: "jsnum \<Rightarrow> jsnum \<Rightarrow> jsnum" where
  "jmin a b = (if a = NaN \<or> b = NaN then NaN else if jlt b a then b else a)"

fun jfloor :: "jsnum \<Rightarrow> jsnum" where
  "jfloor (Fin a) = Fin (of_int \<lfloor>a\<rfloor>)"
| "jfloor x = x"

fun jceil :: "jsnum \<Rightarrow> jsnum" where
  "jceil (Fin a) = Fin (of_int \<lceil>a\<rceil>)"
| "jceil x = x"

text \<open>\<open>Math.round\<close> rounds a half towards \<open>+\<infinity>\<close>.\<close>

fun jround :: "jsnum \<Rightarrow> jsnum" where
  "jround (Fin a) = Fin (of_int \<lfloor>a + 1 / 2\<rfloor>)"
| "jround x = x"

text \<open>
  Exponentiation (\<open>**\<close> and \<open>Math.pow\<close>), with the case order of the language:
  a NaN or zero exponent first, then the infinite and zero bases, the infinite
  exponents, and a negative base with a fractional exponent.
\<close>

definition odd_integer :: "real \<Rightarrow> bool" where
  "odd_integer y = (of_int \<lfloor>y\<rfloor> = y \<and> odd \<lfloor>y\<rfloor>)"

fun jpow :: "jsnum \<Rightarrow> jsnum \<Rightarrow> jsnum" where
  "jpow _ NaN = NaN"
| "jpow b (Fin y) =
     (if y = 0 then Fin 1
      else case b of
        NaN \<Rightarrow> NaN
      | PInf \<Rightarrow> (if 0 < y then PInf else Fin 0)
      | NInf \<Rightarrow> (if 0 < y then (if odd_integer y then NInf else PInf) else Fin 0)
      | Fin x \<Rightarrow>
          (if x = 0 then (if 0 < y then Fin 0 else PInf)
           else if 0 < x then Fin (x powr y)
           else if of_int \<lfloor>y\<rfloor> = y
             then Fin (if odd \<lfloor>y\<rfloor> then - ((- x) powr y) else (- x) powr y)
           else NaN))"
| "jpow b PInf =
     (case b of
        NaN \<Rightarrow> NaN
      | PInf \<Rightarrow> PInf
      | NInf \<Rightarrow> PInf
      | Fin x \<Rightarrow> (if 1 < \<bar>x\<bar> then PInf else if \<bar>x\<bar> = 1 then NaN else Fin 0))"
| "jpow b NInf =
     (case b of
        NaN \<Rightarrow> NaN
      | PInf \<Rightarrow> Fin 0
      | NInf \<Rightarrow> Fin 0
      | Fin x \<Rightarrow> (if 1 < \<bar>x\<bar> then Fin 0 else if \<bar>x\<bar> = 1 then NaN else PInf))"

subsection \<open>Rounding to a double\<close>

text \<open>
  \<open>binade x\<close> is the exponent \<open>e\<close> with \<open>2^e \<le> |x| < 2^(e+1)\<close>, computed from the bit
  length of the integer part (or of the reciprocal); a double in that binade is a
  multiple of \<open>2^(e-52)\<close>, and \<open>roundDouble\<close> takes the nearest one, a tie to the even
  multiple.
\<close>

definition pow2 :: "int \<Rightarrow> real" where
  "pow2 k = (if 0 \<le> k then 2 ^ nat k else 1 / 2 ^ nat (- k))"

definition binade :: "real \<Rightarrow> int" where
  "binade x =
     (if 1 \<le> \<bar>x\<bar> then int (floorlog 2 (nat \<lfloor>\<bar>x\<bar>\<rfloor>)) - 1
      else - int (floorlog 2 (nat (\<lceil>1 / \<bar>x\<bar>\<rceil> - 1))))"

definition roundHalfEven :: "real \<Rightarrow> int" where
  "roundHalfEven x =
     (if x - of_int \<lfloor>x\<rfloor> < 1 / 2 then \<lfloor>x\<rfloor>
      else if 1 / 2 < x - of_int \<lfloor>x\<rfloor> then \<lfloor>x\<rfloor> + 1
      else if even \<lfloor>x\<rfloor> then \<lfloor>x\<rfloor> else \<lfloor>x\<rfloor> + 1)"

definition roundDouble :: "real \<Rightarrow> real" where
  "roundDouble x =
     (if x = 0 then 0
      else of_int (roundHalfEven (x / pow2 (binade x - 52))) * pow2 (binade x - 52))"

definition dround :: "jsnum \<Rightarrow> jsnum" where
  "dround x = (case x of Fin a \<Rightarrow> Fin (roundDouble a) | PInf \<Rightarrow> PInf | NInf \<Rightarrow> NInf | NaN \<Rightarrow> NaN)"

definition dadd :: "jsnum \<Rightarrow> jsnum \<Rightarrow> jsnum" where
  "dadd a b = dround (jadd a b)"

definition dsub :: "jsnum \<Rightarrow> jsnum \<Rightarrow> jsnum" where
  "dsub a b = dround (jsub a b)"

definition dmul :: "jsnum \<Rightarrow> jsnum \<Rightarrow> jsnum" where
  "dmul a b = dround (jmul a b)"

definition ddiv :: "jsnum \<Rightarrow> jsnum \<Rightarrow> jsnum" where
  "ddiv a b = dround (jdiv a b)"

text \<open>The double that a decimal literal of the source denotes.\<close>

definition double :: "real \<Rightarrow> jsnum" where
  "double x = Fin (roundDouble x)"

text \<open>
  A template literal is kept as its pieces: the literal text, a number interpolated as
  it is (\<open>${x}\<close>) and a number interpolated through \<open>toFixed\<close> with its digit count.
  The digits themselves depend on the binary representation and are not modelled.
\<close>

datatype piece = Lit string | Num jsnum | ToFixed jsnum nat

type_synonym template = "piece list"

section \<open>Constants (utils/constants.ts)\<close>

definition TOKENS_PER_HOUR_SAVED :: jsnum where
  "TOKENS_PER_HOUR_SAVED = Fin 10"

definition DAILY_SCREEN_TIME_GOAL_HOURS :: jsnum where
  "DAILY_SCREEN_TIME_GOAL_HOURS = Fin 8"

definition KES_PER_TOKEN :: jsnum where
  "KES_PER_TOKEN = Fin (1 / 10)"

definition TIME_HOUR :: jsnum where
  "TIME_HOUR = Fin (60 * 60 * 1000)"

definition TIME_DAY :: jsnum where
  "TIME_DAY = Fin (24 * 60 * 60 * 1000)"

section \<open>Rewards engine (services/rewardsEngine.ts)\<close>

text \<open>
  Record fields keep the names of the source. A parameter whose name is also a field
  of a record carries a prime.
\<close>

datatype RewardType = Base | Streak | Milestone | Challenge

record RewardBreakdown =
  type :: RewardType
  description :: template
  tokens :: jsnum

record RewardCalculation =
  tokensEarned :: jsnum
  hoursUnderGoal :: jsnum
  dailyGoalMet :: bool
  streakBonus :: jsnum
  totalReward :: jsnum
  breakdown :: "RewardBreakdown list"

record WeeklyStreak =
  currentStreak :: jsnum
  longestStreak :: jsnum
  weeklyGoalsMet :: jsnum

definition BASE_TOKENS_PER_HOUR :: jsnum where
  "BASE_TOKENS_PER_HOUR = TOKENS_PER_HOUR_SAVED"

definition DAILY_GOAL_HOURS :: jsnum where
  "DAILY_GOAL_HOURS = DAILY_SCREEN_TIME_GOAL_HOURS"

definition calculateStreakBonus :: "jsnum \<Rightarrow> bool \<Rightarrow> jsnum" where
  "calculateStreakBonus currentStreak' goalMet =
     (if \<not> goalMet \<or> jlt currentStreak' (Fin 2) then Fin 0
      else if jge currentStreak' (Fin 30) then Fin 50
      else if jge currentStreak' (Fin 21) then Fin 35
      else if jge currentStreak' (Fin 14) then Fin 25
      else if jge currentStreak' (Fin 7) then Fin 15
      else if jge currentStreak' (Fin 3) then Fin 5
      else Fin 2)"

definition calculateMilestoneBonus :: "jsnum \<Rightarrow> jsnum \<Rightarrow> jsnum" where
  "calculateMilestoneBonus screenTimeHours goalHours =
     (let percentageUnderGoal =
            jmul (jdiv (jsub goalHours screenTimeHours) goalHours) (Fin 100)
      in if jge percentageUnderGoal (Fin 50) then Fin 20
         else if jge percentageUnderGoal (Fin 25) then Fin 10
         else Fin 0)"

definition getMilestoneDescription :: "jsnum \<Rightarrow> jsnum \<Rightarrow> template" where
  "getMilestoneDescription screenTimeHours goalHours =
     (let percentageUnderGoal =
            jmul (jdiv (jsub goalHours screenTimeHours) goalHours) (Fin 100)
      in if jge percentageUnderGoal (Fin 50) then [Lit ''Exceptional! 50%+ under goal'']
         else if jge percentageUnderGoal (Fin 25) then [Lit ''Great job! 25%+ under goal'']
         else [Lit ''Milestone achieved''])"

text \<open>
  \<open>calculateDailyReward\<close>: the three conditional \<open>push\<close>/\<open>+=\<close> blocks are three steps
  on the pair of the breakdown list and the running total.
\<close>

definition calculateDailyReward :: "jsnum \<Rightarrow> jsnum \<Rightarrow> jsnum \<Rightarrow> RewardCalculation" where
  "calculateDailyReward screenTimeMs goalHours currentStreak' =
     (let screenTimeHours = jdiv screenTimeMs TIME_HOUR;
          hoursUnderGoal = jmax (Fin 0) (jsub goalHours screenTimeHours);
          dailyGoalMet = jle screenTimeHours goalHours;
          breakdown0 = [];
          totalTokens0 = Fin 0;
          baseTokens = jfloor (jmul hoursUnderGoal BASE_TOKENS_PER_HOUR);
          (breakdown1, totalTokens1) =
            (if jgt baseTokens (Fin 0)
             then (breakdown0 @ [\<lparr> type = Base,
                                   description = [ToFixed hoursUnderGoal 1, Lit '' hours under goal''],
                                   tokens = baseTokens \<rparr>],
                   jadd totalTokens0 baseTokens)
             else (breakdown0, totalTokens0));
          streakBonus = calculateStreakBonus currentStreak' dailyGoalMet;
          (breakdown2, totalTokens2) =
            (if jgt streakBonus (Fin 0)
             then (breakdown1 @ [\<lparr> type = Streak,
                                   description = [Num currentStreak', Lit '' day streak bonus''],
                                   tokens = streakBonus \<rparr>],
                   jadd totalTokens1 streakBonus)
             else (breakdown1, totalTokens1));
          milestoneBonus = calculateMilestoneBonus screenTimeHours goalHours;
          (breakdown3, totalTokens3) =
            (if jgt milestoneBonus (Fin 0)
             then (breakdown2 @ [\<lparr> type = Milestone,
                                   description = getMilestoneDescription screenTimeHours goalHours,
                                   tokens = milestoneBonus \<rparr>],
                   jadd totalTokens2 milestoneBonus)
             else (breakdown2, totalTokens2))
      in \<lparr> tokensEarned = baseTokens,
           hoursUnderGoal = hoursUnderGoal,
           dailyGoalMet = dailyGoalMet,
           streakBonus = streakBonus,
           totalReward = totalTokens3,
           breakdown = breakdown3 \<rparr>)"

datatype Performance = excellent | good | needs_improvement

record WeeklyPerformance =
  totalTokensEarned :: jsnum
  averageScreenTime :: jsnum
  goalsMetCount :: jsnum
  streakData :: WeeklyStreak
  performance :: Performance

text \<open>
  One round of the \<open>for ... of\<close> loop of \<open>calculateWeeklyPerformance\<close>, on the loop's
  variables \<open>(totalTokens, goalsMetCount, longestStreak, tempStreak)\<close>.
\<close>

definition weeklyStep :: "jsnum \<times> jsnum \<times> jsnum \<times> jsnum \<Rightarrow> jsnum \<Rightarrow> jsnum \<times> jsnum \<times> jsnum \<times> jsnum" where
  "weeklyStep st screenTimeMs =
     (case st of (totalTokens, goalsMet, longest, tempStreak) \<Rightarrow>
        let reward = calculateDailyReward screenTimeMs DAILY_GOAL_HOURS tempStreak;
            totalTokens1 = jadd totalTokens (totalReward reward)
        in if dailyGoalMet reward
           then (let goalsMet1 = jadd goalsMet (Fin 1);
                     tempStreak1 = jadd tempStreak (Fin 1)
                 in (totalTokens1, goalsMet1, jmax longest tempStreak1, tempStreak1))
           else (totalTokens1, goalsMet, longest, Fin 0))"

definition calculateWeeklyPerformance :: "jsnum list \<Rightarrow> WeeklyPerformance" where
  "calculateWeeklyPerformance dailyScreenTimes =
     (if length dailyScreenTimes = 0
      then \<lparr> totalTokensEarned = Fin 0,
             averageScreenTime = Fin 0,
             goalsMetCount = Fin 0,
             streakData = \<lparr> currentStreak = Fin 0, longestStreak = Fin 0, weeklyGoalsMet = Fin 0 \<rparr>,
             performance = needs_improvement \<rparr>
      else
        (case foldl weeklyStep (Fin 0, Fin 0, Fin 0, Fin 0) dailyScreenTimes of
           (totalTokens, goalsMet, longest, tempStreak) \<Rightarrow>
             let current = tempStreak;
                 n = Fin (real (length dailyScreenTimes));
                 average = jdiv (foldl (\<lambda>sum time. jadd sum time) (Fin 0) dailyScreenTimes) n;
                 goalPercentage = jdiv goalsMet n;
                 perf = (if jge goalPercentage (Fin (8 / 10)) then excellent
                         else if jge goalPercentage (Fin (5 / 10)) then good
                         else needs_improvement)
             in \<lparr> totalTokensEarned = totalTokens,
                  averageScreenTime = average,
                  goalsMetCount = goalsMet,
                  streakData = \<lparr> currentStreak = current, longestStreak = longest,
                                 weeklyGoalsMet = goalsMet \<rparr>,
                  performance = perf \<rparr>))"

section \<open>Savings simulator (services/savingsSim.ts)\<close>

record SavingsProjection =
  timeToGoal :: jsnum
  monthlyRequired :: jsnum
  weeklyRequired :: jsnum
  dailyRequired :: jsnum
  feasible :: bool
  recommendations :: "template list"

text \<open>
  \<open>calculateSavingsProjection\<close> reads the clock once, with \<open>Date.now()\<close>. The reading
  is the first argument \<open>now\<close> of its model.
\<close>

definition calculateSavingsProjection :: "jsnum \<Rightarrow> jsnum \<Rightarrow> jsnum \<Rightarrow> jsnum \<Rightarrow> jsnum \<Rightarrow> SavingsProjection" where
  "calculateSavingsProjection now currentSavings goalAmount targetDate' averageDailyTokens =
     (let daysToGoal = jmax (Fin 1) (jceil (jdiv (jsub targetDate' now) TIME_DAY));
          amountNeeded = jmax (Fin 0) (jsub goalAmount currentSavings);
          dailyKESFromTokens = jmul averageDailyTokens KES_PER_TOKEN;
          monthlyKESFromTokens = jmul dailyKESFromTokens (Fin 30);
          dailyRequired = jdiv amountNeeded daysToGoal;
          weeklyRequired = jmul dailyRequired (Fin 7);
          monthlyRequired = jmul dailyRequired (Fin 30);
          feasibleWithTokensOnly = jge monthlyKESFromTokens monthlyRequired;
          feasible = (feasibleWithTokensOnly \<or> jle monthlyRequired (Fin 10000));
          recommendations0 = [];
          recommendations1 =
            (if \<not> feasible
             then recommendations0 @
                    [[Lit ''Consider extending your target date or reducing the goal amount'']]
             else recommendations0);
          recommendations2 =
            (if jgt monthlyRequired monthlyKESFromTokens
             then (let additionalNeeded = jsub monthlyRequired monthlyKESFromTokens
                   in recommendations1 @
                        [[Lit (''You'' @ [CHR 0x27] @ ''ll need an additional ''),
                          ToFixed additionalNeeded 0,
                          Lit '' KES monthly beyond tokens'']])
             else recommendations1);
          recommendations3 =
            (if jlt averageDailyTokens (Fin 30)
             then recommendations2 @
                    [[Lit ''Reduce your screen time more to earn additional tokens'']]
             else recommendations2);
          recommendations4 =
            recommendations3 @ [[Lit ''Consider investing tokens in MMFs for compound growth'']]
      in \<lparr> timeToGoal = daysToGoal,
           monthlyRequired = monthlyRequired,
           weeklyRequired = weeklyRequired,
           dailyRequired = dailyRequired,
           feasible = feasible,
           recommendations = recommendations4 \<rparr>)"

record InvestmentProjection =
  principal :: jsnum
  projectedValue :: jsnum
  totalReturn :: jsnum
  returnPercentage :: jsnum
  timeHorizon :: jsnum
  monthlyContribution :: jsnum

definition calculateInvestmentProjection :: "jsnum \<Rightarrow> jsnum \<Rightarrow> jsnum \<Rightarrow> jsnum \<Rightarrow> InvestmentProjection" where
  "calculateInvestmentProjection principal' annualRate timeHorizonDays monthlyContribution' =
     (let years = jdiv timeHorizonDays (Fin 365);
          monthlyRate = jdiv (jdiv annualRate (Fin 100)) (Fin 12);
          months = jdiv timeHorizonDays (Fin 30);
          projectedValue0 = principal';
          projectedValue1 =
            (if jgt monthlyContribution' (Fin 0)
             then (let annuityFV =
                         jmul monthlyContribution'
                           (jdiv (jsub (jpow (jadd (Fin 1) monthlyRate) months) (Fin 1)) monthlyRate);
                       principalFV = jmul principal' (jpow (jadd (Fin 1) monthlyRate) months)
                   in jadd principalFV annuityFV)
             else jmul principal' (jpow (jadd (Fin 1) (jdiv annualRate (Fin 100))) years));
          totalReturn =
            jsub (jsub projectedValue1 principal') (jmul monthlyContribution' months);
          returnPercentage =
            jmul (jdiv (jsub projectedValue1 principal') principal') (Fin 100)
      in \<lparr> principal = principal',
           projectedValue = jround projectedValue1,
           totalReturn = jround totalReturn,
           returnPercentage = jdiv (jround (jmul returnPercentage (Fin 100))) (Fin 100),
           timeHorizon = timeHorizonDays,
           monthlyContribution = monthlyContribution' \<rparr>)"



text \<open>\<open>SavingsGoal\<close> is declared in store/walletStore.ts.\<close>

record SavingsGoal =
  id_goal :: string
  name :: string
  targetAmount :: jsnum
  currentAmount :: jsnum
  targetDate :: jsnum
  isActive :: bool
  createdAt :: jsnum

datatype Priority = high | medium | low

text \<open>The goal with the three fields that the \<open>map\<close> of \<open>prioritizedGoals\<close> adds.\<close>

record PrioritizedGoal = SavingsGoal +
  urgency :: jsnum
  completion :: jsnum
  goalPriority :: Priority

record Allocation =
  goalId :: string
  goalName :: string
  recommendedTokens :: jsnum
  recommendedKES :: jsnum
  priority :: Priority

record AllocationResult =
  allocation :: "Allocation list"
  remainingTokens :: jsnum
  totalAllocated :: jsnum

text \<open>
  The allocation is in double arithmetic: every \<open>+\<close>, \<open>-\<close>, \<open>*\<close>, \<open>/\<close> of the source
  is a rounded operation, and \<open>0.8\<close>, \<open>0.3\<close>, \<open>0.5\<close> and \<open>KES_PER_TOKEN = 0.1\<close> are the
  doubles that the literals denote.
\<close>

definition prioritize :: "jsnum \<Rightarrow> SavingsGoal \<Rightarrow> PrioritizedGoal" where
  "prioritize now goal =
     (let timeRemaining = dsub (targetDate goal) now;
          completion = ddiv (currentAmount goal) (targetAmount goal);
          urgency = ddiv timeRemaining TIME_DAY;
          priority0 = medium;
          priority1 =
            (if jlt urgency (Fin 30) \<and> jlt completion (double (8 / 10)) then high
             else if jlt urgency (Fin 90) \<or> jgt completion (double (8 / 10)) then medium
             else low)
      in \<lparr> id_goal = id_goal goal, name = name goal, targetAmount = targetAmount goal,
           currentAmount = currentAmount goal, targetDate = targetDate goal,
           isActive = isActive goal, createdAt = createdAt goal,
           urgency = urgency, completion = completion, goalPriority = priority1 \<rparr>)"

fun priorityOrder :: "Priority \<Rightarrow> jsnum" where
  "priorityOrder high = Fin 0"
| "priorityOrder medium = Fin 1"
| "priorityOrder low = Fin 2"

definition compareGoals :: "PrioritizedGoal \<Rightarrow> PrioritizedGoal \<Rightarrow> jsnum" where
  "compareGoals a b =
     (if \<not> jeq (priorityOrder (goalPriority a)) (priorityOrder (goalPriority b))
      then dsub (priorityOrder (goalPriority a)) (priorityOrder (goalPriority b))
      else dsub (urgency a) (urgency b))"

text \<open>
  \<open>Array.prototype.sort\<close> with a comparator is stable: an element moves behind another
  one only when the comparator is positive on the pair. The model is the stable
  insertion sort. Where the comparator is not an ordering (it returns NaN) the language
  leaves the result to the implementation.
\<close>

fun insertBy :: "('a \<Rightarrow> 'a \<Rightarrow> jsnum) \<Rightarrow> 'a \<Rightarrow> 'a list \<Rightarrow> 'a list" where
  "insertBy cmp x [] = [x]"
| "insertBy cmp x (y # ys) =
     (if jgt (cmp x y) (Fin 0) then y # insertBy cmp x ys else x # y # ys)"

definition sortBy :: "('a \<Rightarrow> 'a \<Rightarrow> jsnum) \<Rightarrow> 'a list \<Rightarrow> 'a list" where
  "sortBy cmp xs = foldr (insertBy cmp) xs []"

text \<open>
  The callback of the allocating \<open>map\<close> updates \<open>remainingKES\<close> and
  \<open>totalAllocatedTokens\<close>; \<open>allocate\<close> threads both through the goals in order and
  returns them with the mapped list.
\<close>

fun allocate :: "jsnum \<Rightarrow> jsnum \<Rightarrow> PrioritizedGoal list \<Rightarrow> Allocation list \<times> jsnum \<times> jsnum" where
  "allocate remainingKES totalAllocatedTokens [] = ([], remainingKES, totalAllocatedTokens)"
| "allocate remainingKES totalAllocatedTokens (goal # goals) =
     (let amountNeeded = dsub (targetAmount goal) (currentAmount goal);
          timeRemainingDays = jmax (Fin 1) (urgency goal);
          monthlyNeed = dmul (ddiv amountNeeded timeRemainingDays) (Fin 30);
          recommendedKES0 = jmin remainingKES monthlyNeed;
          recommendedKES1 =
            (if goalPriority goal = high \<and>
                jlt recommendedKES0 (dmul monthlyNeed (double (3 / 10)))
             then jmin remainingKES (dmul monthlyNeed (double (5 / 10)))
             else recommendedKES0);
          recommendedTokens = jfloor (ddiv recommendedKES1 (dround KES_PER_TOKEN));
          recommendedKES2 = dmul recommendedTokens (dround KES_PER_TOKEN);
          entry = \<lparr> goalId = id_goal goal,
                    goalName = name goal,
                    recommendedTokens = recommendedTokens,
                    recommendedKES = recommendedKES2,
                    priority = goalPriority goal \<rparr>
      in case allocate (dsub remainingKES recommendedKES2)
                (dadd totalAllocatedTokens recommendedTokens) goals of
           (entries, remainingKES', totalAllocatedTokens') \<Rightarrow>
             (entry # entries, remainingKES', totalAllocatedTokens'))"

text \<open>
  The source reads \<open>Date.now()\<close> inside the callback that computes the urgency, once
  for every active goal, in the order of the list: \<open>clock k\<close> is the reading for the
  active goal at position \<open>k\<close> (from \<open>0\<close>).
\<close>

definition calculateOptimalAllocation :: "(nat \<Rightarrow> jsnum) \<Rightarrow> jsnum \<Rightarrow> SavingsGoal list \<Rightarrow> AllocationResult" where
  "calculateOptimalAllocation clock monthlyTokens savingsGoals =
     (if length savingsGoals = 0
      then \<lparr> allocation = [], remainingTokens = monthlyTokens, totalAllocated = Fin 0 \<rparr>
      else
        (let prioritizedGoals =
               sortBy compareGoals
                 (map (\<lambda>(k, goal). prioritize (clock k) goal)
                    (enumerate 0 (filter isActive savingsGoals)));
             monthlyKES = dmul monthlyTokens (dround KES_PER_TOKEN)
         in case allocate monthlyKES (Fin 0) prioritizedGoals of
              (entries, remainingKES, totalAllocatedTokens) \<Rightarrow>
                \<lparr> allocation = filter (\<lambda>a. jgt (recommendedTokens a) (Fin 0)) entries,
                  remainingTokens = dsub monthlyTokens totalAllocatedTokens,
                  totalAllocated = totalAllocatedTokens \<rparr>))"

section \<open>Notions of the specification\<close>

text \<open>
  The streak tiers as the specification lists them, a threshold with its payout, and
  the payout of the highest threshold that a streak meets (\<open>0\<close> when it meets none).
\<close>

definition streakTiers :: "(real \<times> real) list" where
  "streakTiers = [(30, 50), (21, 35), (14, 25), (7, 15), (3, 5), (2, 2)]"

definition highestTierPayout :: "real \<Rightarrow> real" where
  "highestTierPayout s =
     snd (foldl (\<lambda>best tier. if fst tier \<le> s \<and> fst best < fst tier then tier else best)
            (0, 0) streakTiers)"


text \<open>
  The streak of the specification: a day meets the goal when its screen time in hours
  is at most the daily goal; the streak after a sequence of days grows by one on a day
  that meets the goal and falls to \<open>0\<close> on a day that misses it. \<open>dayReward days n\<close> is
  the reward of day \<open>n\<close> (from \<open>0\<close>) computed with the streak after the days before it.
\<close>

definition goalMetOn :: "jsnum \<Rightarrow> bool" where
  "goalMetOn screenTimeMs = jle (jdiv screenTimeMs TIME_HOUR) DAILY_GOAL_HOURS"

definition streakAfter :: "jsnum list \<Rightarrow> nat" where
  "streakAfter days = foldl (\<lambda>s x. if goalMetOn x then Suc s else 0) 0 days"

definition dayReward :: "jsnum list \<Rightarrow> nat \<Rightarrow> jsnum" where
  "dayReward days n =
     totalReward (calculateDailyReward (days ! n) DAILY_GOAL_HOURS
                    (Fin (real (streakAfter (take n days)))))"

text \<open>A goal whose amounts and target date are finite numbers.\<close>

definition finiteGoal :: "SavingsGoal \<Rightarrow> bool" where
  "finiteGoal goal =
     (finite_num (targetAmount goal) \<and> finite_num (currentAmount goal) \<and>
      finite_num (targetDate goal))"

text \<open>
  Two goals for the examples, with the clock at \<open>0\<close>: one saved beyond its target and
  due in 10 days, one with nothing saved and due in 50 days.
\<close>

definition overshotGoal :: SavingsGoal where
  "overshotGoal =
     \<lparr> id_goal = ''a'', name = ''A'', targetAmount = Fin 1000, currentAmount = Fin 2000,
       targetDate = Fin (10 * 86400000), isActive = True, createdAt = Fin 0 \<rparr>"

definition openGoal :: SavingsGoal where
  "openGoal =
     \<lparr> id_goal = ''b'', name = ''B'', targetAmount = Fin 1000, currentAmount = Fin 0,
       targetDate = Fin (50 * 86400000), isActive = True, createdAt = Fin 0 \<rparr>"

text \<open>A goal of 1 KES due in 256 days, with nothing saved.\<close>

definition smallGoal :: SavingsGoal where
  "smallGoal =
     \<lparr> id_goal = ''g'', name = ''G'', targetAmount = Fin 1, currentAmount = Fin 0,
       targetDate = Fin (256 * 86400000), isActive = True, createdAt = Fin 0 \<rparr>"

text \<open>A prioritized goal whose amounts and urgency are finite numbers.\<close>

definition finitePGoal :: "PrioritizedGoal \<Rightarrow> bool" where
  "finitePGoal goal =
     (finite_num (targetAmount goal) \<and> finite_num (currentAmount goal) \<and>
      finite_num (urgency goal))"

text \<open>
  A prioritized goal with its target date blanked: the sort and the allocation read the
  urgency, never the date.
\<close>

definition withoutDate :: "PrioritizedGoal \<Rightarrow> PrioritizedGoal" where
  "withoutDate goal = goal\<lparr> targetDate := Fin 0 \<rparr>"

section \<open>Arithmetic on finite numbers\<close>

lemmas constant_defs = TOKENS_PER_HOUR_SAVED_def DAILY_SCREEN_TIME_GOAL_HOURS_def
  KES_PER_TOKEN_def TIME_HOUR_def TIME_DAY_def BASE_TOKENS_PER_HOUR_def DAILY_GOAL_HOURS_def

lemma jsub_Fin [simp]: "jsub (Fin a) (Fin b) = Fin (a - b)"
  by (simp add: jsub_def)

lemma jle_Fin [simp]: "jle (Fin a) (Fin b) = (a \<le> b)"
  by (auto simp: jle_def jeq_def)

lemma jgt_Fin [simp]: "jgt (Fin a) (Fin b) = (b < a)"
  by (simp add: jgt_def)

lemma jge_Fin [simp]: "jge (Fin a) (Fin b) = (b \<le> a)"
  by (simp add: jge_def)

lemma jeq_Fin [simp]: "jeq (Fin a) (Fin b) = (a = b)"
  by (simp add: jeq_def)

lemma jmax_Fin [simp]: "jmax (Fin a) (Fin b) = Fin (max a b)"
  by (simp add: jmax_def max_def)

lemma jmin_Fin [simp]: "jmin (Fin a) (Fin b) = Fin (min a b)"
  by (auto simp: jmin_def min_def)

lemma finite_num_iff: "finite_num x \<longleftrightarrow> (\<exists>a. x = Fin a)"
  by (cases x) (simp_all add: finite_num_def)

lemma finite_num_Fin [simp]: "finite_num (Fin a)"
  by (simp add: finite_num_def)

lemma finite_num_jadd: "finite_num a \<Longrightarrow> finite_num b \<Longrightarrow> finite_num (jadd a b)"
  by (auto simp: finite_num_iff)

lemma finite_num_jsub: "finite_num a \<Longrightarrow> finite_num b \<Longrightarrow> finite_num (jsub a b)"
  by (auto simp: finite_num_iff)

lemma finite_num_jmul: "finite_num a \<Longrightarrow> finite_num b \<Longrightarrow> finite_num (jmul a b)"
  by (auto simp: finite_num_iff)

lemma finite_num_jmin: "finite_num a \<Longrightarrow> finite_num b \<Longrightarrow> finite_num (jmin a b)"
  by (auto simp: finite_num_iff)

lemma finite_num_jfloor: "finite_num a \<Longrightarrow> finite_num (jfloor a)"
  by (auto simp: finite_num_iff)

lemma finite_num_jdiv: "finite_num a \<Longrightarrow> b \<noteq> 0 \<Longrightarrow> finite_num (jdiv a (Fin b))"
  by (auto simp: finite_num_iff)

lemma finite_num_jdiv_days:
  "finite_num a \<Longrightarrow> finite_num u \<Longrightarrow> finite_num (jdiv a (jmax (Fin 1) u))"
  by (auto simp: finite_num_iff max_def)

lemmas finite_num_intros = finite_num_jadd finite_num_jsub finite_num_jmul finite_num_jmin
  finite_num_jfloor finite_num_jdiv finite_num_jdiv_days

section \<open>The daily reward\<close>

lemma calculateStreakBonus_Fin:
  "calculateStreakBonus (Fin s) goalMet =
     Fin (if \<not> goalMet \<or> s < 2 then 0 else if 30 \<le> s then 50 else if 21 \<le> s then 35
          else if 14 \<le> s then 25 else if 7 \<le> s then 15 else if 3 \<le> s then 5 else 2)"
  by (simp add: calculateStreakBonus_def)

lemma dailyGoalMet_eq:
  "dailyGoalMet (calculateDailyReward x g c) = jle (jdiv x TIME_HOUR) g"
  by (simp add: calculateDailyReward_def Let_def split: prod.splits)

lemma hours_of_ms [simp]: "jdiv (Fin s) TIME_HOUR = Fin (s / 3600000)"
  by (simp add: TIME_HOUR_def)



lemma highestTierPayout_unfold:
  "highestTierPayout s =
     (if 30 \<le> s then 50 else if 21 \<le> s then 35 else if 14 \<le> s then 25
      else if 7 \<le> s then 15 else if 3 \<le> s then 5 else if 2 \<le> s then 2 else 0)"
  by (simp add: highestTierPayout_def streakTiers_def)

text \<open>
  Claim C7. For every finite streak and every \<open>goalMet\<close> flag, \<open>calculateStreakBonus\<close>
  returns \<open>0\<close> when the goal is not met or the streak is below 2, and otherwise the
  payout of the highest tier of the table that the streak meets, one payout and not a
  sum: 50 from 30, 35 from 21, 25 from 14, 15 from 7, 5 from 3, and 2 from 2. The three
  values of the specification hold: \<open>(7, true)\<close> pays 15, \<open>(1, true)\<close> and
  \<open>(30, false)\<close> pay 0.
\<close>

theorem streak_bonus_tiers:
  "calculateStreakBonus (Fin s) goalMet =
     Fin (if goalMet \<and> 2 \<le> s then highestTierPayout s else 0)
   \<and> highestTierPayout s =
       (if 30 \<le> s then 50 else if 21 \<le> s then 35 else if 14 \<le> s then 25
        else if 7 \<le> s then 15 else if 3 \<le> s then 5 else if 2 \<le> s then 2 else 0)
   \<and> calculateStreakBonus (Fin 2) True = Fin 2
   \<and> calculateStreakBonus (Fin 7) True = Fin 15
   \<and> calculateStreakBonus (Fin 1) True = Fin 0
   \<and> calculateStreakBonus (Fin 30) False = Fin 0"
  by (simp add: calculateStreakBonus_Fin highestTierPayout_unfold)

theorem streak_bonus_tiers_witness:
  "calculateStreakBonus (Fin 25) True = Fin 35 \<and> highestTierPayout 25 = 35"
  using streak_bonus_tiers [of 25 True] by simp






section \<open>The savings projection\<close>

text \<open>
  Claim C10. For every input, also a non-finite one, and every reading of the clock,
  the recommendations of \<open>calculateSavingsProjection\<close> are not empty and end with the
  hint to invest in MMFs, which no condition guards.
\<close>

theorem mmf_hint_always_last:
  "recommendations (calculateSavingsProjection now currentSavings goalAmount td averageDailyTokens)
     \<noteq> []
   \<and> last (recommendations
             (calculateSavingsProjection now currentSavings goalAmount td averageDailyTokens))
       = [Lit ''Consider investing tokens in MMFs for compound growth'']"
  by (simp add: calculateSavingsProjection_def Let_def)

theorem mmf_hint_always_last_witness:
  "feasible (calculateSavingsProjection (Fin 0) (Fin 0) (Fin 100) (Fin 2592000000) (Fin 40))
   \<and> recommendations
       (calculateSavingsProjection (Fin 0) (Fin 0) (Fin 100) (Fin 2592000000) (Fin 40))
       = [[Lit ''Consider investing tokens in MMFs for compound growth'']]"
proof -
  let ?r = "calculateSavingsProjection (Fin 0) (Fin 0) (Fin 100) (Fin 2592000000) (Fin 40)"
  have "length (recommendations ?r) = 1 \<and> feasible ?r"
    by (simp add: calculateSavingsProjection_def Let_def constant_defs)
  with mmf_hint_always_last [of "Fin 0" "Fin 0" "Fin 100" "Fin 2592000000" "Fin 40"]
  show ?thesis by (cases "recommendations ?r") auto
qed

section \<open>The investment projection\<close>

text \<open>
  Claim C1 fails on the code. With an annual rate of \<open>0\<close> and a monthly contribution
  \<open>> 0\<close> the annuity branch divides \<open>(1 + 0) ** months - 1 = 0\<close> by the monthly rate
  \<open>0\<close>: for every finite principal and horizon the projected value is NaN, not the
  principal plus \<open>monthlyContribution * months\<close>.
\<close>

theorem zero_rate_annuity_is_NaN:
  assumes "0 < c"
  shows "projectedValue (calculateInvestmentProjection (Fin p) (Fin 0) (Fin d) (Fin c)) = NaN"
  using assms by (simp add: calculateInvestmentProjection_def Let_def)

theorem zero_rate_annuity_is_NaN_witness:
  "(0::real) < 100
   \<and> projectedValue (calculateInvestmentProjection (Fin 1000) (Fin 0) (Fin 30) (Fin 100)) = NaN"
  using zero_rate_annuity_is_NaN [of 100 1000 30] by simp

text \<open>
  The branch without a contribution has no division by the rate: at rate \<open>0\<close> it
  returns the rounded principal.
\<close>

lemma zero_rate_lump_sum:
  "projectedValue (calculateInvestmentProjection (Fin p) (Fin 0) (Fin d) (Fin 0)) =
     Fin (of_int \<lfloor>p + 1 / 2\<rfloor>)"
  by (simp add: calculateInvestmentProjection_def Let_def)

section \<open>The weekly performance\<close>

lemma streakAfter_Nil [simp]: "streakAfter [] = 0"
  by (simp add: streakAfter_def)

lemma streakAfter_snoc:
  "streakAfter (xs @ [x]) = (if goalMetOn x then Suc (streakAfter xs) else 0)"
  by (simp add: streakAfter_def)

lemma dailyGoalMet_goalMetOn:
  "dailyGoalMet (calculateDailyReward x DAILY_GOAL_HOURS c) = goalMetOn x"
  by (simp add: dailyGoalMet_eq goalMetOn_def)

lemma rewards_snoc:
  "foldl jadd (Fin 0) (map (dayReward (xs @ [x])) [0..<length (xs @ [x])]) =
     jadd (foldl jadd (Fin 0) (map (dayReward xs) [0..<length xs]))
       (totalReward (calculateDailyReward x DAILY_GOAL_HOURS (Fin (real (streakAfter xs)))))"
proof -
  have "map (dayReward (xs @ [x])) [0..<length xs] = map (dayReward xs) [0..<length xs]"
    by (simp add: dayReward_def nth_append)
  moreover have "dayReward (xs @ [x]) (length xs) =
      totalReward (calculateDailyReward x DAILY_GOAL_HOURS (Fin (real (streakAfter xs))))"
    by (simp add: dayReward_def)
  moreover have "[0..<length (xs @ [x])] = [0..<length xs] @ [length xs]"
    by simp
  ultimately show ?thesis
    by (simp only: map_append foldl_append list.map foldl.simps)
qed

lemma longest_snoc:
  "Max ((\<lambda>n. streakAfter (take n (xs @ [x]))) ` {..length (xs @ [x])}) =
     max (Max ((\<lambda>n. streakAfter (take n xs)) ` {..length xs}))
       (if goalMetOn x then Suc (streakAfter xs) else 0)"
proof -
  have "(\<lambda>n. streakAfter (take n (xs @ [x]))) ` {..length xs}
          = (\<lambda>n. streakAfter (take n xs)) ` {..length xs}"
    by (rule image_cong) simp_all
  then have "(\<lambda>n. streakAfter (take n (xs @ [x]))) ` {..length (xs @ [x])}
          = insert (streakAfter (xs @ [x])) ((\<lambda>n. streakAfter (take n xs)) ` {..length xs})"
    by (simp add: atMost_Suc)
  then have "Max ((\<lambda>n. streakAfter (take n (xs @ [x]))) ` {..length (xs @ [x])})
          = max (streakAfter (xs @ [x])) (Max ((\<lambda>n. streakAfter (take n xs)) ` {..length xs}))"
    by (simp only: ) (rule Max_insert, simp_all)
  then show ?thesis by (simp only: streakAfter_snoc max.commute)
qed

lemma count_snoc:
  "length (filter goalMetOn (xs @ [x])) =
     (if goalMetOn x then Suc (length (filter goalMetOn xs)) else length (filter goalMetOn xs))"
  by simp

lemma weeklyStep_nat:
  "weeklyStep (T, Fin (real G), Fin (real L), Fin (real S)) x =
     (jadd T (totalReward (calculateDailyReward x DAILY_GOAL_HOURS (Fin (real S)))),
      Fin (real (if goalMetOn x then Suc G else G)),
      Fin (real (max L (if goalMetOn x then Suc S else 0))),
      Fin (real (if goalMetOn x then Suc S else 0)))"
  by (auto simp: weeklyStep_def Let_def dailyGoalMet_goalMetOn max_def)

lemma weekly_loop:
  "foldl weeklyStep (Fin 0, Fin 0, Fin 0, Fin 0) days =
     (foldl jadd (Fin 0) (map (dayReward days) [0..<length days]),
      Fin (real (length (filter goalMetOn days))),
      Fin (real (Max ((\<lambda>n. streakAfter (take n days)) ` {..length days}))),
      Fin (real (streakAfter days)))"
proof (induction days rule: rev_induct)
  case Nil
  show ?case by simp
next
  case (snoc x xs)
  have "foldl weeklyStep (Fin 0, Fin 0, Fin 0, Fin 0) (xs @ [x]) =
          weeklyStep (foldl weeklyStep (Fin 0, Fin 0, Fin 0, Fin 0) xs) x"
    by simp
  also have "\<dots> =
     (jadd (foldl jadd (Fin 0) (map (dayReward xs) [0..<length xs]))
        (totalReward (calculateDailyReward x DAILY_GOAL_HOURS (Fin (real (streakAfter xs))))),
      Fin (real (if goalMetOn x then Suc (length (filter goalMetOn xs))
                 else length (filter goalMetOn xs))),
      Fin (real (max (Max ((\<lambda>n. streakAfter (take n xs)) ` {..length xs}))
                   (if goalMetOn x then Suc (streakAfter xs) else 0))),
      Fin (real (if goalMetOn x then Suc (streakAfter xs) else 0)))"
    by (simp only: snoc.IH weeklyStep_nat)
  also have "\<dots> =
     (foldl jadd (Fin 0) (map (dayReward (xs @ [x])) [0..<length (xs @ [x])]),
      Fin (real (length (filter goalMetOn (xs @ [x])))),
      Fin (real (Max ((\<lambda>n. streakAfter (take n (xs @ [x]))) ` {..length (xs @ [x])}))),
      Fin (real (streakAfter (xs @ [x]))))"
    by (simp only: rewards_snoc longest_snoc streakAfter_snoc count_snoc)
  finally show ?case .
qed


text \<open>
  Claim C3. For every non-empty sequence of daily screen times,
  \<open>calculateWeeklyPerformance\<close> adds up the rewards of the days where the reward of
  day \<open>n\<close> is \<open>calculateDailyReward\<close> called with the streak after the days before it;
  the streak grows by one on each day whose reward has \<open>dailyGoalMet\<close> and falls to \<open>0\<close>
  on each other day; \<open>longestStreak\<close> is the maximum of the streak over all prefixes of
  the sequence, and \<open>currentStreak\<close> is the streak after the last day.
\<close>

theorem weekly_streak_feeds_forward:
  assumes "days \<noteq> []"
  shows "totalTokensEarned (calculateWeeklyPerformance days)
           = foldl jadd (Fin 0) (map (dayReward days) [0..<length days])
   \<and> currentStreak (streakData (calculateWeeklyPerformance days))
           = Fin (real (streakAfter days))
   \<and> longestStreak (streakData (calculateWeeklyPerformance days))
           = Fin (real (Max ((\<lambda>n. streakAfter (take n days)) ` {..length days})))
   \<and> (\<forall>n < length days.
         streakAfter (take (Suc n) days) =
           (if dailyGoalMet (calculateDailyReward (days ! n) DAILY_GOAL_HOURS
                               (Fin (real (streakAfter (take n days)))))
            then Suc (streakAfter (take n days)) else 0))"
proof -
  have "\<forall>n < length days.
         streakAfter (take (Suc n) days) =
           (if dailyGoalMet (calculateDailyReward (days ! n) DAILY_GOAL_HOURS
                               (Fin (real (streakAfter (take n days)))))
            then Suc (streakAfter (take n days)) else 0)"
    by (simp add: take_Suc_conv_app_nth streakAfter_snoc dailyGoalMet_goalMetOn)
  then show ?thesis
    using assms by (simp add: calculateWeeklyPerformance_def weekly_loop Let_def)
qed

theorem weekly_streak_feeds_forward_witness:
  "[Fin 0, Fin 3600000, Fin 36000000, Fin 0] \<noteq> []
   \<and> streakAfter [Fin 0, Fin 3600000, Fin 36000000, Fin 0] = 1
   \<and> currentStreak (streakData (calculateWeeklyPerformance [Fin 0, Fin 3600000, Fin 36000000, Fin 0]))
       = Fin 1"
proof -
  have ne: "[Fin 0, Fin 3600000, Fin 36000000, Fin 0] \<noteq> []"
    by simp
  have s: "streakAfter [Fin 0, Fin 3600000, Fin 36000000, Fin 0] = 1"
    by (simp add: streakAfter_def goalMetOn_def constant_defs)
  from weekly_streak_feeds_forward [OF ne]
  have "currentStreak (streakData (calculateWeeklyPerformance [Fin 0, Fin 3600000, Fin 36000000, Fin 0]))
       = Fin (real (streakAfter [Fin 0, Fin 3600000, Fin 36000000, Fin 0]))"
    by (rule conjunct2 [THEN conjunct1])
  with ne s show ?thesis by simp
qed

section \<open>Screen time to savings\<close>





section \<open>Double arithmetic\<close>

lemmas double_eval = roundDouble_def binade_def compute_floorlog pow2_def roundHalfEven_def

lemma roundHalfEven_of_int [simp]: "roundHalfEven (of_int j) = j"
  by (simp add: roundHalfEven_def)

lemma pow2_pos [simp]: "0 < pow2 k"
  by (simp add: pow2_def)

lemma pow2_nonneg [simp]: "0 \<le> pow2 k"
  by (simp add: pow2_def)

lemma roundDouble_zero [simp]: "roundDouble 0 = 0"
  by (simp add: roundDouble_def)

lemma roundDouble_nonneg: "0 \<le> x \<Longrightarrow> 0 \<le> roundDouble x"
proof -
  assume x: "0 \<le> x"
  have "0 \<le> x / pow2 (binade x - 52)"
    using x pow2_pos [of "binade x - 52"] by (intro divide_nonneg_pos)
  then have "0 \<le> \<lfloor>x / pow2 (binade x - 52)\<rfloor>" by simp
  then have "0 \<le> roundHalfEven (x / pow2 (binade x - 52))"
    by (simp add: roundHalfEven_def)
  then have "0 \<le> real_of_int (roundHalfEven (x / pow2 (binade x - 52))) * pow2 (binade x - 52)"
    by (intro mult_nonneg_nonneg) simp_all
  then show ?thesis by (simp add: roundDouble_def)
qed

lemma roundDouble_safe_integer:
  assumes "\<bar>k\<bar> \<le> 9007199254740992"
  shows "roundDouble (of_int k) = of_int k"
proof (cases "k = 0")
  case True
  then show ?thesis by simp
next
  case False
  define n where "n = nat \<bar>k\<bar>"
  define L where "L = floorlog 2 n"
  have n: "0 < n" "n \<le> 2 ^ 53" using False assms by (simp_all add: n_def)
  have bounds: "2 ^ (L - 1) \<le> n" "n < 2 ^ L"
    using floorlog_bounds [of n 2] n by (simp_all add: L_def)
  have L1: "1 \<le> L"
    using n by (simp add: L_def floorlog_def)
  have "(2::nat) ^ (L - 1) \<le> 2 ^ 53" using bounds n by linarith
  then have L54: "L - 1 \<le> 53" by (rule power_le_imp_le_exp [rotated]) simp
  have absk: "\<bar>real_of_int k\<bar> = real n" using False by (simp add: n_def)
  have b: "binade (of_int k) = int L - 1"
    using False n by (simp add: binade_def absk L_def)
  show ?thesis
  proof (cases "L - 1 \<le> 52")
    case True
    define p where "p = 53 - L"
    have e: "int L - 1 - 52 = - int p" using True L1 by (simp add: p_def)
    have q: "pow2 (- int p) = 1 / 2 ^ p" by (simp add: pow2_def)
    have "real_of_int k / (1 / 2 ^ p) = of_int (k * 2 ^ p)" by simp
    then have "roundHalfEven (real_of_int k / (1 / 2 ^ p)) = k * 2 ^ p"
      by (simp only: roundHalfEven_of_int)
    then show ?thesis using False by (simp add: roundDouble_def b e q)
  next
    case False
    with L54 have L: "L = 54" by simp
    from bounds n have "n = 2 ^ 53" by (simp add: L)
    then have k: "k = 9007199254740992 \<or> k = - 9007199254740992"
      by (auto simp: n_def)
    have q: "pow2 1 = 2" by (simp add: pow2_def)
    from k show ?thesis
      by (auto simp: roundDouble_def b L q roundHalfEven_def)
  qed
qed

lemma dround_Fin [simp]: "dround (Fin a) = Fin (roundDouble a)"
  by (simp add: dround_def)

lemma dadd_Fin [simp]: "dadd (Fin a) (Fin b) = Fin (roundDouble (a + b))"
  by (simp add: dadd_def)

lemma dsub_Fin [simp]: "dsub (Fin a) (Fin b) = Fin (roundDouble (a - b))"
  by (simp add: dsub_def)

lemma dmul_Fin [simp]: "dmul (Fin a) (Fin b) = Fin (roundDouble (a * b))"
  by (simp add: dmul_def)

lemma ddiv_Fin: "b \<noteq> 0 \<Longrightarrow> ddiv (Fin a) (Fin b) = Fin (roundDouble (a / b))"
  by (simp add: ddiv_def)

lemma roundDouble_numeral [simp]:
  "(numeral n :: int) \<le> 9007199254740992 \<Longrightarrow> roundDouble (numeral n) = numeral n"
  using roundDouble_safe_integer [of "numeral n"] by simp

lemma roundDouble_neg_numeral [simp]:
  "(numeral n :: int) \<le> 9007199254740992 \<Longrightarrow> roundDouble (- numeral n) = - numeral n"
  using roundDouble_safe_integer [of "- numeral n"] by simp

lemma roundDouble_one [simp]: "roundDouble 1 = 1"
  using roundDouble_safe_integer [of 1] by simp

lemma double_tenth: "dround KES_PER_TOKEN = Fin (3602879701896397 / 36028797018963968)"
  by (simp add: KES_PER_TOKEN_def double_eval)

lemma double_eight_tenths: "double (4 / 5) = Fin (3602879701896397 / 4503599627370496)"
  by (simp add: double_def double_eval)

lemma double_three_tenths: "double (3 / 10) = Fin (5404319552844595 / 18014398509481984)"
  by (simp add: double_def double_eval)

lemma double_half: "double (1 / 2) = Fin (1 / 2)"
  by (simp add: double_def double_eval)

section \<open>The allocation\<close>

lemma prioritize_overshot:
  "prioritize (Fin 0) overshotGoal =
     \<lparr> id_goal = ''a'', name = ''A'', targetAmount = Fin 1000, currentAmount = Fin 2000,
       targetDate = Fin (10 * 86400000), isActive = True, createdAt = Fin 0,
       urgency = Fin 10, completion = Fin 2, goalPriority = medium \<rparr>"
  by (simp add: prioritize_def overshotGoal_def Let_def TIME_DAY_def ddiv_Fin double_eight_tenths)

lemma prioritize_open:
  "prioritize (Fin 0) openGoal =
     \<lparr> id_goal = ''b'', name = ''B'', targetAmount = Fin 1000, currentAmount = Fin 0,
       targetDate = Fin (50 * 86400000), isActive = True, createdAt = Fin 0,
       urgency = Fin 50, completion = Fin 0, goalPriority = medium \<rparr>"
  by (simp add: prioritize_def openGoal_def Let_def TIME_DAY_def ddiv_Fin double_eight_tenths)

lemma tokens_of_minus_3000:
  "jfloor (ddiv (Fin (- 3000)) (dround KES_PER_TOKEN)) = Fin (- 30000)"
  by (simp add: double_tenth ddiv_Fin) (simp add: double_eval)

lemma kes_of_minus_30000: "dmul (Fin (- 30000)) (dround KES_PER_TOKEN) = Fin (- 3000)"
  by (simp add: double_tenth) (simp add: double_eval)

lemma tokens_of_600: "jfloor (ddiv (Fin 600) (dround KES_PER_TOKEN)) = Fin 6000"
  by (simp add: double_tenth ddiv_Fin) (simp add: double_eval)

lemma kes_of_6000: "dmul (Fin 6000) (dround KES_PER_TOKEN) = Fin 600"
  by (simp add: double_tenth) (simp add: double_eval)

lemma kes_of_0: "dmul (Fin 0) (dround KES_PER_TOKEN) = Fin 0"
  by (simp add: double_tenth)

lemma example_allocation:
  "calculateOptimalAllocation (\<lambda>k. Fin 0) (Fin 0) [openGoal, overshotGoal] =
     \<lparr> allocation = [\<lparr> goalId = ''b'', goalName = ''B'', recommendedTokens = Fin 6000,
                        recommendedKES = Fin 600, priority = medium \<rparr>],
       remainingTokens = Fin 24000,
       totalAllocated = Fin (- 24000) \<rparr>"
proof -
  have active: "filter isActive [openGoal, overshotGoal] = [openGoal, overshotGoal]"
    by (simp add: overshotGoal_def openGoal_def)
  have sorted: "sortBy compareGoals [prioritize (Fin 0) openGoal, prioritize (Fin 0) overshotGoal]
      = [prioritize (Fin 0) overshotGoal, prioritize (Fin 0) openGoal]"
    by (simp add: sortBy_def prioritize_overshot prioritize_open compareGoals_def)
  have alloc: "allocate (Fin 0) (Fin 0) [prioritize (Fin 0) overshotGoal, prioritize (Fin 0) openGoal]
      = ([\<lparr> goalId = ''a'', goalName = ''A'', recommendedTokens = Fin (- 30000),
              recommendedKES = Fin (- 3000), priority = medium \<rparr>,
          \<lparr> goalId = ''b'', goalName = ''B'', recommendedTokens = Fin 6000,
              recommendedKES = Fin 600, priority = medium \<rparr>], Fin 2400, Fin (- 24000))"
    by (simp add: prioritize_overshot prioritize_open Let_def ddiv_Fin tokens_of_minus_3000
        kes_of_minus_30000 tokens_of_600 kes_of_6000)
  show ?thesis
    unfolding calculateOptimalAllocation_def Let_def active
    by (simp add: enumerate_eq_zip sorted alloc kes_of_0 del: allocate.simps)
qed


text \<open>
  Claim C6 fails on the code. With a budget of \<open>0\<close> tokens and the two example goals the
  overshot goal comes first, its negative need becomes an allocation of \<open>-30000\<close> tokens
  that raises the remaining budget to 3000 KES, and the open goal then receives 6000
  tokens: the allocation list is not empty and \<open>remainingTokens\<close> is 24000.
\<close>

theorem zero_budget_allocates:
  "calculateOptimalAllocation (\<lambda>k. Fin 0) (Fin 0) [openGoal, overshotGoal] =
     \<lparr> allocation = [\<lparr> goalId = ''b'', goalName = ''B'', recommendedTokens = Fin 6000,
                        recommendedKES = Fin 600, priority = medium \<rparr>],
       remainingTokens = Fin 24000,
       totalAllocated = Fin (- 24000) \<rparr>"
  by (rule example_allocation)

text \<open>
  Where no goal is saved beyond its target, the zero budget behaves as the
  specification says: every need is \<open>\<ge> 0\<close>, every goal receives \<open>0\<close> tokens and the
  result is the empty allocation with \<open>0\<close> tokens remaining.
\<close>

lemma set_insertBy: "set (insertBy cmp x ys) = insert x (set ys)"
  by (induction ys) auto

lemma set_sortBy: "set (sortBy cmp xs) = set xs"
  by (induction xs) (simp_all add: sortBy_def set_insertBy)

lemma finite_num_dround: "finite_num a \<Longrightarrow> finite_num (dround a)"
  by (auto simp: finite_num_iff)

lemma prioritize_amounts [simp]:
  "targetAmount (prioritize now g) = targetAmount g"
  "currentAmount (prioritize now g) = currentAmount g"
  by (simp_all add: prioritize_def Let_def)

lemma prioritize_finite:
  "finiteGoal g \<Longrightarrow> finite_num now \<Longrightarrow> finitePGoal (prioritize now g)"
  by (auto simp: finiteGoal_def finitePGoal_def prioritize_def Let_def TIME_DAY_def
      finite_num_iff ddiv_Fin)

lemma tenth_pos: "\<exists>d. dround KES_PER_TOKEN = Fin d \<and> 0 < d"
  by (rule exI [of _ "3602879701896397 / 36028797018963968"]) (simp add: double_tenth)

lemma allocate_zero_budget:
  "\<forall>g \<in> set gs. finitePGoal g \<and> jle (currentAmount g) (targetAmount g) \<Longrightarrow>
     allocate (Fin 0) (Fin 0) gs =
       (map (\<lambda>g. \<lparr> goalId = id_goal g, goalName = name g, recommendedTokens = Fin 0,
                    recommendedKES = Fin 0, priority = goalPriority g \<rparr>) gs,
        Fin 0, Fin 0)"
proof (induction gs)
  case Nil
  show ?case by simp
next
  case (Cons g gs)
  from Cons.prems obtain ta ca u where g: "targetAmount g = Fin ta" "currentAmount g = Fin ca"
      "urgency g = Fin u" and le: "ca \<le> ta"
    by (auto simp: finitePGoal_def finite_num_iff)
  obtain d where d: "dround KES_PER_TOKEN = Fin d" "0 < d"
    using tenth_pos by blast
  define need where "need = roundDouble (roundDouble (roundDouble (ta - ca) / max 1 u) * 30)"
  have pos: "0 < max 1 u" by (simp add: max_def)
  have "0 \<le> roundDouble (ta - ca)" using le by (simp add: roundDouble_nonneg)
  then have "0 \<le> roundDouble (ta - ca) / max 1 u"
    using pos by (rule divide_nonneg_pos)
  then have "0 \<le> roundDouble (roundDouble (ta - ca) / max 1 u)"
    by (rule roundDouble_nonneg)
  then have "0 \<le> roundDouble (roundDouble (ta - ca) / max 1 u) * 30"
    by simp
  then have need: "0 \<le> need"
    unfolding need_def by (rule roundDouble_nonneg)
  have n: "dmul (ddiv (dsub (targetAmount g) (currentAmount g)) (jmax (Fin 1) (urgency g)))
             (Fin 30) = Fin need"
    unfolding need_def g using pos by (simp add: ddiv_Fin)
  have half: "\<exists>h. dmul (Fin need) (double (5 / 10)) = Fin h \<and> 0 \<le> h"
    using need by (simp add: double_half roundDouble_nonneg)
  have third: "\<exists>h. dmul (Fin need) (double (3 / 10)) = Fin h"
    by (simp add: double_def)
  from Cons.prems have "allocate (Fin 0) (Fin 0) gs =
       (map (\<lambda>g. \<lparr> goalId = id_goal g, goalName = name g, recommendedTokens = Fin 0,
                    recommendedKES = Fin 0, priority = goalPriority g \<rparr>) gs,
        Fin 0, Fin 0)"
    by (intro Cons.IH) simp
  then show ?case
    using need half third d by (auto simp: n Let_def min_def ddiv_Fin)
qed

lemma zero_budget_without_overshoot:
  assumes "\<forall>g \<in> set goals. finiteGoal g \<and> jle (currentAmount g) (targetAmount g)"
      and "\<forall>k. finite_num (clock k)"
  shows "calculateOptimalAllocation clock (Fin 0) goals =
           \<lparr> allocation = [], remainingTokens = Fin 0, totalAllocated = Fin 0 \<rparr>"
proof (cases "length goals = 0")
  case True
  then show ?thesis by (simp add: calculateOptimalAllocation_def)
next
  case False
  let ?ps = "sortBy compareGoals
               (map (\<lambda>(k, goal). prioritize (clock k) goal) (enumerate 0 (filter isActive goals)))"
  have "\<forall>g \<in> set ?ps. finitePGoal g \<and> jle (currentAmount g) (targetAmount g)"
  proof
    fix pg assume "pg \<in> set ?ps"
    then obtain k g where kg: "(k, g) \<in> set (enumerate 0 (filter isActive goals))"
        and pg: "pg = prioritize (clock k) g"
      by (auto simp: set_sortBy)
    from kg have "k < length (filter isActive goals)" "g = filter isActive goals ! k"
      by (auto simp: in_set_enumerate_eq)
    then have "g \<in> set (filter isActive goals)"
      by (simp only: nth_mem)
    then have "g \<in> set goals" by simp
    with assms show "finitePGoal pg \<and> jle (currentAmount pg) (targetAmount pg)"
      by (simp add: pg prioritize_finite)
  qed
  from allocate_zero_budget [OF this] False show ?thesis
    by (simp add: calculateOptimalAllocation_def Let_def double_tenth filter_map o_def)
qed

text \<open>
  The token accounting in doubles. A budget of \<open>2^53 + 2\<close> tokens with the small goal
  allocates one token; the difference \<open>2^53 + 1\<close> is not a double and rounds to \<open>2^53\<close>.
\<close>

lemma prioritize_small:
  "prioritize (Fin 0) smallGoal =
     \<lparr> id_goal = ''g'', name = ''G'', targetAmount = Fin 1, currentAmount = Fin 0,
       targetDate = Fin (256 * 86400000), isActive = True, createdAt = Fin 0,
       urgency = Fin 256, completion = Fin 0, goalPriority = low \<rparr>"
  by (simp add: prioritize_def smallGoal_def Let_def TIME_DAY_def ddiv_Fin double_eight_tenths)

lemma budget_in_kes:
  "dmul (Fin 9007199254740994) (dround KES_PER_TOKEN) = Fin (1801439850948199 / 2)"
  by (simp add: double_tenth) (simp add: double_eval)

lemma need_of_small: "dmul (ddiv (Fin 1) (Fin 256)) (Fin 30) = Fin (15 / 128)"
  by (simp add: ddiv_Fin) (simp add: double_eval)

lemma tokens_of_small: "jfloor (ddiv (Fin (15 / 128)) (dround KES_PER_TOKEN)) = Fin 1"
  by (simp add: double_tenth ddiv_Fin) (simp add: double_eval)

lemma kes_of_1: "dmul (Fin 1) (dround KES_PER_TOKEN) = dround KES_PER_TOKEN"
  by (simp add: double_tenth) (simp add: double_eval)

lemma allocate_small:
  "\<exists>r. allocate (Fin (1801439850948199 / 2)) (Fin 0) [prioritize (Fin 0) smallGoal] =
     ([\<lparr> goalId = ''g'', goalName = ''G'', recommendedTokens = Fin 1,
           recommendedKES = dround KES_PER_TOKEN, priority = low \<rparr>], r, Fin 1)"
  by (simp add: prioritize_small Let_def need_of_small tokens_of_small kes_of_1)

lemma small_allocation:
  "totalAllocated (calculateOptimalAllocation (\<lambda>k. Fin 0) (Fin 9007199254740994) [smallGoal])
     = Fin 1
   \<and> remainingTokens (calculateOptimalAllocation (\<lambda>k. Fin 0) (Fin 9007199254740994) [smallGoal])
     = Fin 9007199254740992"
proof -
  have active: "filter isActive [smallGoal] = [smallGoal]"
    by (simp add: smallGoal_def)
  obtain r where alloc:
    "allocate (Fin (1801439850948199 / 2)) (Fin 0) [prioritize (Fin 0) smallGoal] =
     ([\<lparr> goalId = ''g'', goalName = ''G'', recommendedTokens = Fin 1,
           recommendedKES = dround KES_PER_TOKEN, priority = low \<rparr>], r, Fin 1)"
    using allocate_small by blast
  have last: "roundDouble 9007199254740993 = 9007199254740992"
    by (simp add: double_eval)
  show ?thesis
    unfolding calculateOptimalAllocation_def Let_def active
    by (simp add: enumerate_eq_zip sortBy_def budget_in_kes alloc last del: allocate.simps)
qed
lemma remainingTokens_eq:
  "remainingTokens (calculateOptimalAllocation clock m goals) =
     (if length goals = 0 then m
      else dsub m (totalAllocated (calculateOptimalAllocation clock m goals)))"
  by (simp add: calculateOptimalAllocation_def Let_def split: prod.splits)

lemma totalAllocated_no_goals:
  "length goals = 0 \<Longrightarrow> totalAllocated (calculateOptimalAllocation clock m goals) = Fin 0"
  by (simp add: calculateOptimalAllocation_def)

text \<open>
  Claim C2 as stated fails: for the budget \<open>2^53 + 2\<close> and the small goal the code
  returns \<open>totalAllocated = 1\<close> and \<open>remainingTokens = 2^53\<close>, and their sum, \<open>2^53\<close> in
  doubles and \<open>2^53 + 1\<close> exactly, is not the budget.
\<close>

theorem allocation_rounds_counterexample:
  "totalAllocated (calculateOptimalAllocation (\<lambda>k. Fin 0) (Fin 9007199254740994) [smallGoal])
     = Fin 1
   \<and> remainingTokens (calculateOptimalAllocation (\<lambda>k. Fin 0) (Fin 9007199254740994) [smallGoal])
     = Fin 9007199254740992
   \<and> dadd (totalAllocated
             (calculateOptimalAllocation (\<lambda>k. Fin 0) (Fin 9007199254740994) [smallGoal]))
          (remainingTokens
             (calculateOptimalAllocation (\<lambda>k. Fin 0) (Fin 9007199254740994) [smallGoal]))
     = Fin 9007199254740992
   \<and> \<not> jeq (dadd (totalAllocated
                    (calculateOptimalAllocation (\<lambda>k. Fin 0) (Fin 9007199254740994) [smallGoal]))
                 (remainingTokens
                    (calculateOptimalAllocation (\<lambda>k. Fin 0) (Fin 9007199254740994) [smallGoal])))
           (Fin 9007199254740994)"
proof -
  have "roundDouble 9007199254740993 = 9007199254740992"
    by (simp add: double_eval)
  then show ?thesis by (simp add: small_allocation)
qed
text \<open>
  Claim C2, amended. For every integer budget of at most \<open>2^53\<close> in magnitude, every
  reading of the clock and every list of goals (any number, overdue or overshot ones
  included) for which \<open>totalAllocated\<close> is an integer that differs from the budget by
  at most \<open>2^53\<close>, the result of \<open>calculateOptimalAllocation\<close> has
  \<open>totalAllocated + remainingTokens == monthlyTokens\<close>: the subtraction and the sum
  are exact on these integers.
\<close>

theorem allocation_conserves_safe_integers:
  assumes total: "totalAllocated (calculateOptimalAllocation clock (Fin (of_int m)) goals)
                    = Fin (of_int a)"
      and m: "\<bar>m\<bar> \<le> 9007199254740992"
      and rest: "\<bar>m - a\<bar> \<le> 9007199254740992"
  shows "jeq (dadd (totalAllocated (calculateOptimalAllocation clock (Fin (of_int m)) goals))
                   (remainingTokens (calculateOptimalAllocation clock (Fin (of_int m)) goals)))
             (Fin (of_int m))"
proof (cases "length goals = 0")
  case True
  with total have "a = 0" by (simp add: totalAllocated_no_goals)
  with True total m show ?thesis
    by (simp add: remainingTokens_eq roundDouble_safe_integer)
next
  case False
  have r: "roundDouble (real_of_int m - real_of_int a) = of_int (m - a)"
    using roundDouble_safe_integer [OF rest] by simp
  have "roundDouble (real_of_int a + real_of_int (m - a)) = of_int m"
    using roundDouble_safe_integer [OF m] by simp
  with False total r show ?thesis
    by (simp add: remainingTokens_eq)
qed

theorem allocation_conserves_safe_integers_witness:
  "totalAllocated (calculateOptimalAllocation (\<lambda>k. Fin 0) (Fin (of_int 0)) [openGoal, overshotGoal])
     = Fin (of_int (- 24000))
   \<and> \<bar>0 :: int\<bar> \<le> 9007199254740992
   \<and> \<bar>0 - (- 24000) :: int\<bar> \<le> 9007199254740992
   \<and> jeq (dadd (totalAllocated
                  (calculateOptimalAllocation (\<lambda>k. Fin 0) (Fin (of_int 0)) [openGoal, overshotGoal]))
               (remainingTokens
                  (calculateOptimalAllocation (\<lambda>k. Fin 0) (Fin (of_int 0)) [openGoal, overshotGoal])))
         (Fin (of_int 0))"
proof -
  have t: "totalAllocated
             (calculateOptimalAllocation (\<lambda>k. Fin 0) (Fin (of_int 0)) [openGoal, overshotGoal])
           = Fin (of_int (- 24000))"
    by (simp add: example_allocation)
  from allocation_conserves_safe_integers [OF t] t show ?thesis by simp
qed

text \<open>
  Rounding also moves a token inside the range: a budget of 43 tokens is 4.3 KES, and
  \<open>4.3 / 0.1\<close> in doubles lies below 43, so 42 tokens are allocated and one remains.
\<close>

lemma kes_of_43: "dmul (Fin 43) (dround KES_PER_TOKEN) = Fin (4841369599423283 / 1125899906842624)"
  by (simp add: double_tenth) (simp add: double_eval)

lemma tokens_of_43:
  "jfloor (ddiv (Fin (4841369599423283 / 1125899906842624)) (dround KES_PER_TOKEN)) = Fin 42"
  by (simp add: double_tenth ddiv_Fin) (simp add: double_eval)

lemma budget_of_43_allocates_42:
  "totalAllocated (calculateOptimalAllocation (\<lambda>k. Fin 0) (Fin 43) [openGoal]) = Fin 42
   \<and> remainingTokens (calculateOptimalAllocation (\<lambda>k. Fin 0) (Fin 43) [openGoal]) = Fin 1"
proof -
  have active: "filter isActive [openGoal] = [openGoal]"
    by (simp add: openGoal_def)
  have "\<exists>es r. allocate (Fin (4841369599423283 / 1125899906842624)) (Fin 0)
                 [prioritize (Fin 0) openGoal] = (es, r, Fin 42)"
    by (simp add: prioritize_open Let_def ddiv_Fin tokens_of_43)
  then obtain es r where alloc:
    "allocate (Fin (4841369599423283 / 1125899906842624)) (Fin 0)
       [prioritize (Fin 0) openGoal] = (es, r, Fin 42)"
    by blast
  show ?thesis
    unfolding calculateOptimalAllocation_def Let_def active
    by (simp add: enumerate_eq_zip sortBy_def alloc kes_of_43 del: allocate.simps)
qed

section \<open>The clock\<close>

lemma tokens_of_3000: "jfloor (ddiv (Fin 3000) (dround KES_PER_TOKEN)) = Fin 30000"
  by (simp add: double_tenth ddiv_Fin) (simp add: double_eval)

lemma kes_of_30000: "dmul (Fin 30000) (dround KES_PER_TOKEN) = Fin 3000"
  by (simp add: double_tenth) (simp add: double_eval)

lemma kes_of_100000: "dmul (Fin 100000) (dround KES_PER_TOKEN) = Fin 10000"
  by (simp add: double_tenth) (simp add: double_eval)

lemma three_tenths_of_3000: "dmul (Fin 3000) (double (3 / 10)) = Fin 900"
  by (simp add: double_three_tenths) (simp add: double_eval)

lemma prioritize_open_later:
  "prioritize (Fin 3456000000) openGoal =
     \<lparr> id_goal = ''b'', name = ''B'', targetAmount = Fin 1000, currentAmount = Fin 0,
       targetDate = Fin (50 * 86400000), isActive = True, createdAt = Fin 0,
       urgency = Fin 10, completion = Fin 0, goalPriority = high \<rparr>"
  by (simp add: prioritize_def openGoal_def Let_def TIME_DAY_def ddiv_Fin double_eight_tenths)

lemma open_allocation_now:
  "calculateOptimalAllocation (\<lambda>k. Fin 0) (Fin 100000) [openGoal] =
     \<lparr> allocation = [\<lparr> goalId = ''b'', goalName = ''B'', recommendedTokens = Fin 6000,
                        recommendedKES = Fin 600, priority = medium \<rparr>],
       remainingTokens = Fin 94000, totalAllocated = Fin 6000 \<rparr>"
proof -
  have active: "filter isActive [openGoal] = [openGoal]"
    by (simp add: openGoal_def)
  have alloc: "allocate (Fin 10000) (Fin 0) [prioritize (Fin 0) openGoal]
      = ([\<lparr> goalId = ''b'', goalName = ''B'', recommendedTokens = Fin 6000,
              recommendedKES = Fin 600, priority = medium \<rparr>], Fin 9400, Fin 6000)"
    by (simp add: prioritize_open Let_def ddiv_Fin tokens_of_600 kes_of_6000)
  show ?thesis
    unfolding calculateOptimalAllocation_def Let_def active
    by (simp add: enumerate_eq_zip sortBy_def alloc kes_of_100000 del: allocate.simps)
qed

lemma open_allocation_later:
  "calculateOptimalAllocation (\<lambda>k. Fin 3456000000) (Fin 100000) [openGoal] =
     \<lparr> allocation = [\<lparr> goalId = ''b'', goalName = ''B'', recommendedTokens = Fin 30000,
                        recommendedKES = Fin 3000, priority = high \<rparr>],
       remainingTokens = Fin 70000, totalAllocated = Fin 30000 \<rparr>"
proof -
  have active: "filter isActive [openGoal] = [openGoal]"
    by (simp add: openGoal_def)
  have alloc: "allocate (Fin 10000) (Fin 0) [prioritize (Fin 3456000000) openGoal]
      = ([\<lparr> goalId = ''b'', goalName = ''B'', recommendedTokens = Fin 30000,
              recommendedKES = Fin 3000, priority = high \<rparr>], Fin 7000, Fin 30000)"
    by (simp add: prioritize_open_later Let_def ddiv_Fin tokens_of_3000 kes_of_30000
        three_tenths_of_3000)
  show ?thesis
    unfolding calculateOptimalAllocation_def Let_def active
    by (simp add: enumerate_eq_zip sortBy_def alloc kes_of_100000 del: allocate.simps)
qed

text \<open>
  Claim C9 as stated fails: the same explicit arguments give a horizon of 30 days when
  the clock reads \<open>0\<close> and of 20 days when it reads ten days later; and the same budget
  and goal give 6000 allocated tokens at medium priority when the clock reads \<open>0\<close> and
  30000 at high priority when it reads forty days later.
\<close>

theorem clock_dependence_counterexample:
  "timeToGoal (calculateSavingsProjection (Fin 0) (Fin 0) (Fin 10000) (Fin 2592000000) (Fin 20)) = Fin 30
   \<and> timeToGoal (calculateSavingsProjection (Fin 864000000) (Fin 0) (Fin 10000) (Fin 2592000000) (Fin 20)) = Fin 20
   \<and> calculateSavingsProjection (Fin 0) (Fin 0) (Fin 10000) (Fin 2592000000) (Fin 20)
       \<noteq> calculateSavingsProjection (Fin 864000000) (Fin 0) (Fin 10000) (Fin 2592000000) (Fin 20)
   \<and> totalAllocated (calculateOptimalAllocation (\<lambda>k. Fin 0) (Fin 100000) [openGoal]) = Fin 6000
   \<and> totalAllocated (calculateOptimalAllocation (\<lambda>k. Fin 3456000000) (Fin 100000) [openGoal])
       = Fin 30000
   \<and> calculateOptimalAllocation (\<lambda>k. Fin 0) (Fin 100000) [openGoal]
       \<noteq> calculateOptimalAllocation (\<lambda>k. Fin 3456000000) (Fin 100000) [openGoal]"
proof -
  have a: "timeToGoal (calculateSavingsProjection (Fin 0) (Fin 0) (Fin 10000) (Fin 2592000000) (Fin 20)) = Fin 30"
    by (simp add: calculateSavingsProjection_def Let_def TIME_DAY_def)
  have b: "timeToGoal (calculateSavingsProjection (Fin 864000000) (Fin 0) (Fin 10000) (Fin 2592000000) (Fin 20)) = Fin 20"
    by (simp add: calculateSavingsProjection_def Let_def TIME_DAY_def)
  have c: "calculateSavingsProjection (Fin 0) (Fin 0) (Fin 10000) (Fin 2592000000) (Fin 20)
       \<noteq> calculateSavingsProjection (Fin 864000000) (Fin 0) (Fin 10000) (Fin 2592000000) (Fin 20)"
  proof
    assume "calculateSavingsProjection (Fin 0) (Fin 0) (Fin 10000) (Fin 2592000000) (Fin 20)
       = calculateSavingsProjection (Fin 864000000) (Fin 0) (Fin 10000) (Fin 2592000000) (Fin 20)"
    then have "Fin 30 = Fin 20" using a b by simp
    then show False by simp
  qed
  from a b c show ?thesis
    by (simp add: open_allocation_now open_allocation_later)
qed

lemma prioritize_shift:
  "withoutDate (prioritize (Fin (t + d)) (g\<lparr> targetDate := Fin (e + d) \<rparr>)) =
   withoutDate (prioritize (Fin t) (g\<lparr> targetDate := Fin e \<rparr>))"
  by (simp add: withoutDate_def prioritize_def Let_def)

lemma compareGoals_withoutDate [simp]:
  "compareGoals (withoutDate a) (withoutDate b) = compareGoals a b"
  by (simp add: compareGoals_def withoutDate_def)

lemma insertBy_map:
  assumes "\<And>a b. cmp (f a) (f b) = cmp a b"
  shows "insertBy cmp (f x) (map f ys) = map f (insertBy cmp x ys)"
  by (induction ys) (simp_all add: assms)

lemma sortBy_map:
  assumes "\<And>a b. cmp (f a) (f b) = cmp a b"
  shows "sortBy cmp (map f xs) = map f (sortBy cmp xs)"
proof (induction xs)
  case Nil
  show ?case by (simp add: sortBy_def)
next
  case (Cons x xs)
  then have "sortBy cmp (map f (x # xs)) = insertBy cmp (f x) (map f (sortBy cmp xs))"
    by (simp add: sortBy_def)
  also have "\<dots> = map f (insertBy cmp x (sortBy cmp xs))"
    by (rule insertBy_map) (rule assms)
  finally show ?case by (simp add: sortBy_def)
qed

lemma allocate_withoutDate: "allocate r t (map withoutDate gs) = allocate r t gs"
proof (induction gs arbitrary: r t)
  case Nil
  show ?case by simp
next
  case (Cons g gs)
  have fields: "targetAmount (withoutDate g) = targetAmount g"
    "currentAmount (withoutDate g) = currentAmount g" "urgency (withoutDate g) = urgency g"
    "goalPriority (withoutDate g) = goalPriority g" "id_goal (withoutDate g) = id_goal g"
    "name (withoutDate g) = name g"
    by (simp_all add: withoutDate_def)
  show ?case
    by (simp add: fields Cons.IH Let_def)
qed

lemma allocate_sorted_dates:
  assumes "map withoutDate ps = map withoutDate qs"
  shows "allocate r t (sortBy compareGoals ps) = allocate r t (sortBy compareGoals qs)"
proof -
  have "allocate r t (sortBy compareGoals ps)
          = allocate r t (map withoutDate (sortBy compareGoals ps))"
    by (simp only: allocate_withoutDate)
  also have "\<dots> = allocate r t (sortBy compareGoals (map withoutDate ps))"
    by (simp add: sortBy_map)
  also have "\<dots> = allocate r t (sortBy compareGoals (map withoutDate qs))"
    by (simp only: assms)
  also have "\<dots> = allocate r t (map withoutDate (sortBy compareGoals qs))"
    by (simp add: sortBy_map)
  also have "\<dots> = allocate r t (sortBy compareGoals qs)"
    by (simp only: allocate_withoutDate)
  finally show ?thesis .
qed

lemma prioritized_shift:
  "map withoutDate
     (map (\<lambda>(k, goal). prioritize (Fin (t k + d)) goal)
        (enumerate 0 (filter isActive (map (\<lambda>(g, e). g\<lparr> targetDate := Fin (e + d) \<rparr>) ps)))) =
   map withoutDate
     (map (\<lambda>(k, goal). prioritize (Fin (t k)) goal)
        (enumerate 0 (filter isActive (map (\<lambda>(g, e). g\<lparr> targetDate := Fin e \<rparr>) ps))))"
proof -
  have f: "filter isActive (map (\<lambda>(g, e). g\<lparr> targetDate := Fin (e + c) \<rparr>) ps) =
           map (\<lambda>(g, e). g\<lparr> targetDate := Fin (e + c) \<rparr>) (filter (\<lambda>(g, e). isActive g) ps)"
    for c
    by (simp add: filter_map o_def split_def)
  have "map withoutDate
     (map (\<lambda>(k, goal). prioritize (Fin (t k + c)) goal)
        (enumerate 0 (filter isActive (map (\<lambda>(g, e). g\<lparr> targetDate := Fin (e + c) \<rparr>) ps)))) =
     map (\<lambda>(k, (g, e)). withoutDate (prioritize (Fin (t k + c)) (g\<lparr> targetDate := Fin (e + c) \<rparr>)))
       (enumerate 0 (filter (\<lambda>(g, e). isActive g) ps))" for c
    by (simp only: f) (simp add: enumerate_eq_zip zip_map2 split_def o_def)
  from this [of d] this [of 0] show ?thesis
    by (simp add: prioritize_shift)
qed

lemma allocation_shift:
  "calculateOptimalAllocation (\<lambda>k. Fin (t k + d)) monthlyTokens
     (map (\<lambda>(g, e). g\<lparr> targetDate := Fin (e + d) \<rparr>) ps) =
   calculateOptimalAllocation (\<lambda>k. Fin (t k)) monthlyTokens
     (map (\<lambda>(g, e). g\<lparr> targetDate := Fin e \<rparr>) ps)"
  unfolding calculateOptimalAllocation_def Let_def
  by (simp only: allocate_sorted_dates [OF prioritized_shift] length_map)

lemma projection_shift:
  "calculateSavingsProjection (Fin (t + d)) currentSavings goalAmount (Fin (e + d))
     averageDailyTokens =
   calculateSavingsProjection (Fin t) currentSavings goalAmount (Fin e) averageDailyTokens"
  by (simp add: calculateSavingsProjection_def)
text \<open>
  Claim C9, amended. \<open>calculateSavingsProjection\<close> and \<open>calculateOptimalAllocation\<close>
  read \<open>Date.now()\<close> (the allocation once for every active goal), and their outputs
  depend on the readings only through the distance from each reading to the target
  date: two calls whose explicit arguments agree except that every target date and
  every reading of the clock of the second call lie later by the same amount \<open>d\<close>
  produce identical outputs. With \<open>d = 0\<close> these are two calls with identical arguments
  and identical readings.
\<close>

theorem outputs_depend_on_time_to_target:
  "calculateSavingsProjection (Fin (t + d)) currentSavings goalAmount (Fin (e + d))
     averageDailyTokens =
   calculateSavingsProjection (Fin t) currentSavings goalAmount (Fin e) averageDailyTokens
   \<and> calculateOptimalAllocation (\<lambda>k. Fin (c k + d)) monthlyTokens
       (map (\<lambda>(g, e). g\<lparr> targetDate := Fin (e + d) \<rparr>) ps) =
     calculateOptimalAllocation (\<lambda>k. Fin (c k)) monthlyTokens
       (map (\<lambda>(g, e). g\<lparr> targetDate := Fin e \<rparr>) ps)"
  by (simp only: projection_shift allocation_shift)

theorem outputs_depend_on_time_to_target_witness:
  "calculateSavingsProjection (Fin 864000000) (Fin 0) (Fin 10000) (Fin 3456000000) (Fin 20) =
   calculateSavingsProjection (Fin 0) (Fin 0) (Fin 10000) (Fin 2592000000) (Fin 20)
   \<and> calculateOptimalAllocation (\<lambda>k. Fin 864000000) (Fin 100000)
       [openGoal\<lparr> targetDate := Fin 5184000000 \<rparr>] =
     calculateOptimalAllocation (\<lambda>k. Fin 0) (Fin 100000)
       [openGoal\<lparr> targetDate := Fin 4320000000 \<rparr>]"
  using outputs_depend_on_time_to_target
    [of 0 864000000 "Fin 0" "Fin 10000" 2592000000 "Fin 20" "\<lambda>k. 0" "Fin 100000"
        "[(openGoal, 4320000000)]"]
  by simp

end
